theory Spec2Isabelle
  imports Complex_Main
begin

section \<open>Values of the language\<close>

text \<open>
  The controller \<^verbatim>\<open>course.controller.js\<close> exports five asynchronous request handlers.
  Each reads an Express request, talks to the ORM object \<^verbatim>\<open>db\<close> and writes one JSON
  response. The embedding keeps that shape: a handler is a function from the collaborator,
  the request and the store before the call to the response and the world after it.

  Conventions of the embedding:
  \<^item> strings are \<open>string\<close> over ASCII; white space is the ASCII part of the language's
    WhiteSpace and LineTerminator classes, and \<open>toLowerCase\<close> maps \<open>A..Z\<close> only;
  \<^item> the numbers the handlers compute with are integers (\<open>int\<close>), exact as doubles
    are below \<open>2^53\<close>; \<open>NaN\<close> and the infinities are the value \<open>None\<close>;
  \<^item> a query parameter is an optional string, as the route's schema declares it;
  \<^item> a rejected promise of the collaborator is the value \<open>Inl err\<close>.
\<close>

datatype error = Error (err_name: string) (message: string)

datatype model = Student | Teacher

text \<open>JSON documents; \<open>Inst\<close> is a model instance handed over by the collaborator.\<close>

datatype 'c json =
    Null
  | Num int
  | Str string
  | Inst 'c
  | Arr "'c json list"
  | Obj "(string \<times> 'c json) list"

record 'c request =
  body :: "'c json"
  query :: "string \<Rightarrow> string option"
  params_id :: string

record 'c response =
  status :: nat
  payload :: "'c json"

subsection \<open>Strings and numbers\<close>

definition isWhiteSpace :: "char \<Rightarrow> bool" where
  "isWhiteSpace c = (c \<in> set [CHR 0x09, CHR 0x0A, CHR 0x0B, CHR 0x0C, CHR 0x0D, CHR 0x20])"

definition trim :: "string \<Rightarrow> string" where
  "trim s = rev (dropWhile isWhiteSpace (rev (dropWhile isWhiteSpace s)))"

definition lowerChar :: "char \<Rightarrow> char" where
  "lowerChar c =
     (let n = (of_char c :: nat) in if 65 \<le> n \<and> n \<le> 90 then char_of (n + 32) else c)"

definition toLowerCase :: "string \<Rightarrow> string" where
  "toLowerCase s = map lowerChar s"

text \<open>\<^verbatim>\<open>s.split(',')\<close>: the pieces between the commas, at least one piece.\<close>

fun split_comma :: "string \<Rightarrow> string list" where
  "split_comma [] = [[]]"
| "split_comma (c # cs) =
     (if c = CHR '','' then [] # split_comma cs
      else (case split_comma cs of
              [] \<Rightarrow> [[c]]
            | t # ts \<Rightarrow> (c # t) # ts))"

text \<open>The value of a character as a digit; 36 when it is none.\<close>

definition digitVal :: "char \<Rightarrow> nat" where
  "digitVal c =
     (let n = (of_char c :: nat)
      in if 48 \<le> n \<and> n \<le> 57 then n - 48
         else if 97 \<le> n \<and> n \<le> 122 then n - 87
         else if 65 \<le> n \<and> n \<le> 90 then n - 55
         else 36)"

text \<open>\<^verbatim>\<open>String(v)\<close> of a query value: a missing one reads \<^verbatim>\<open>undefined\<close>.\<close>

definition ToString :: "string option \<Rightarrow> string" where
  "ToString v = (case v of None \<Rightarrow> ''undefined'' | Some s \<Rightarrow> s)"

text \<open>
  \<^verbatim>\<open>parseInt(v)\<close> with no radix: leading white space is skipped, one sign is read, a
  prefix \<^verbatim>\<open>0x\<close> selects radix 16, and the longest run of digits is the value. No digit
  at all gives \<^verbatim>\<open>NaN\<close>.
\<close>

definition parseInt :: "string option \<Rightarrow> int option" where
  "parseInt v =
     (let S = dropWhile isWhiteSpace (ToString v);
          sign = (if take 1 S = ''-'' then - 1 else (1 :: int));
          S1 = (if take 1 S = ''-'' \<or> take 1 S = ''+'' then drop 1 S else S);
          hex = (take 2 S1 = ''0x'' \<or> take 2 S1 = ''0X'');
          R = (if hex then 16 else (10 :: nat));
          S2 = (if hex then drop 2 S1 else S1);
          Z = takeWhile (\<lambda>c. digitVal c < R) S2
      in if Z = [] then None
         else Some (sign * int (foldl (\<lambda>acc c. acc * R + digitVal c) 0 Z)))"

text \<open>\<^verbatim>\<open>x || d\<close> on a number: \<^verbatim>\<open>NaN\<close> and zero are falsy.\<close>

definition or_default :: "int option \<Rightarrow> int \<Rightarrow> int" where
  "or_default x d = (case x of None \<Rightarrow> d | Some n \<Rightarrow> if n = 0 then d else n)"

text \<open>\<^verbatim>\<open>a / b\<close>: a zero divisor gives an infinity or \<^verbatim>\<open>NaN\<close>.\<close>

definition divide_num :: "int \<Rightarrow> int \<Rightarrow> rat option" where
  "divide_num a b = (if b = 0 then None else Some (of_int a / of_int b))"

definition Math_ceil :: "rat option \<Rightarrow> int option" where
  "Math_ceil x = map_option ceiling x"

text \<open>A number in a JSON document: what is not finite is written \<^verbatim>\<open>null\<close>.\<close>

definition num_json :: "int option \<Rightarrow> 'c json" where
  "num_json x = (case x of None \<Rightarrow> Null | Some n \<Rightarrow> Num n)"

section \<open>The Data Access Collaborator\<close>

text \<open>
  \<^verbatim>\<open>db\<close> is imported from the models module. The handlers use six of its operations; each
  takes the store to a result, or to an error, and a store. The operations are a
  parameter of every handler.
\<close>

record findOptions =
  opt_include :: "model list option"
  opt_limit :: int
  opt_offset :: int
  opt_order :: "(string \<times> string) list"

record ('c, 'st) DB =
  Course_create :: "'c json \<Rightarrow> 'st \<Rightarrow> (error + 'c) \<times> 'st"
  Course_count :: "'st \<Rightarrow> (error + int) \<times> 'st"
  Course_findAll :: "findOptions \<Rightarrow> 'st \<Rightarrow> (error + 'c list) \<times> 'st"
  Course_findByPk :: "string \<Rightarrow> model list option \<Rightarrow> 'st \<Rightarrow> (error + 'c option) \<times> 'st"
  course_update :: "'c \<Rightarrow> 'c json \<Rightarrow> 'st \<Rightarrow> (error + 'c) \<times> 'st"
  course_destroy :: "'c \<Rightarrow> 'st \<Rightarrow> (error + unit) \<times> 'st"

text \<open>The calls a handler can make, with their arguments.\<close>

datatype 'c dbcall =
    Create "'c json"
  | Count
  | FindAll findOptions
  | FindByPk string "model list option"
  | Update 'c "'c json"
  | Destroy 'c

text \<open>
  The world a handler leaves behind: the collaborator's store, the calls the handler made,
  each with the error it raised if it raised one, and what the handler wrote to the
  server's console.
\<close>

record ('c, 'st) world =
  store :: 'st
  trace :: "('c dbcall \<times> error option) list"
  console :: "error list"

definition fresh :: "'st \<Rightarrow> ('c, 'st) world" where
  "fresh st = \<lparr>store = st, trace = [], console = []\<rparr>"

definition raised :: "error + 'a \<Rightarrow> error option" where
  "raised r = (case r of Inl e \<Rightarrow> Some e | Inr _ \<Rightarrow> None)"

text \<open>One awaited call: run it on the store and note it in the trace.\<close>

definition await :: "'c dbcall \<Rightarrow> ('st \<Rightarrow> (error + 'a) \<times> 'st) \<Rightarrow> ('c, 'st) world
    \<Rightarrow> (error + 'a) \<times> ('c, 'st) world" where
  "await c f w =
     (case f (store w) of
        (r, st') \<Rightarrow> (r, w\<lparr>store := st', trace := trace w @ [(c, raised r)]\<rparr>))"

definition console_error :: "error \<Rightarrow> ('c, 'st) world \<Rightarrow> ('c, 'st) world" where
  "console_error err w = w\<lparr>console := console w @ [err]\<rparr>"

section \<open>The handlers\<close>

text \<open>\<^verbatim>\<open>res.status(n).json(v)\<close>, and \<^verbatim>\<open>res.json(v)\<close> with the default status.\<close>

definition res_status_json :: "nat \<Rightarrow> 'c json \<Rightarrow> 'c response" where
  "res_status_json n v = \<lparr>status = n, payload = v\<rparr>"

definition res_json :: "'c json \<Rightarrow> 'c response" where
  "res_json v = res_status_json 200 v"


text \<open>
  The local constants of \<^verbatim>\<open>getAllCourses\<close>, computed before its \<^verbatim>\<open>try\<close> block, and
  the options object it hands to \<^verbatim>\<open>findAll\<close>.
\<close>

definition limit_of :: "'c request \<Rightarrow> int" where
  "limit_of req = or_default (parseInt (query req ''limit'')) 10"

definition page_of :: "'c request \<Rightarrow> int" where
  "page_of req = or_default (parseInt (query req ''page'')) 1"

definition sortOrder_of :: "'c request \<Rightarrow> string" where
  "sortOrder_of req = (if query req ''sort'' = Some ''desc'' then ''DESC'' else ''ASC'')"

definition populateList_of :: "'c request \<Rightarrow> string list" where
  "populateList_of req =
     (case query req ''populate'' of
        None \<Rightarrow> []
      | Some populateRaw \<Rightarrow>
          if populateRaw = [] then []
          else map (\<lambda>p. toLowerCase (trim p)) (split_comma populateRaw))"

definition include_of :: "'c request \<Rightarrow> model list" where
  "include_of req =
     (if ''students'' \<in> set (populateList_of req) then [Student] else []) @
     (if ''teachers'' \<in> set (populateList_of req) then [Teacher] else [])"

definition options_of :: "'c request \<Rightarrow> findOptions" where
  "options_of req =
     \<lparr>opt_include = (if length (include_of req) > 0 then Some (include_of req) else None),
      opt_limit = limit_of req,
      opt_offset = (page_of req - 1) * limit_of req,
      opt_order = [(''createdAt'', sortOrder_of req)]\<rparr>"

definition getAllCourses :: "('c, 'st) DB \<Rightarrow> 'c request \<Rightarrow> 'st
    \<Rightarrow> 'c response \<times> ('c, 'st) world" where
  "getAllCourses db req st =
     (case await Count (Course_count db) (fresh st) of
        (Inl err, w1) \<Rightarrow>
          (res_status_json 500 (Obj [(''error'', Str (message err))]), console_error err w1)
      | (Inr total', w1) \<Rightarrow>
          (let totalPages = Math_ceil (divide_num total' (limit_of req))
           in case await (FindAll (options_of req)) (Course_findAll db (options_of req)) w1 of
                (Inl err, w2) \<Rightarrow>
                  (res_status_json 500 (Obj [(''error'', Str (message err))]),
                   console_error err w2)
              | (Inr courses, w2) \<Rightarrow>
                  (res_json (Obj [(''meta'', Obj [(''totalItems'', Num total'),
                                                  (''page'', Num (page_of req)),
                                                  (''totalPages'', num_json totalPages)]),
                                  (''data'', Arr (map Inst courses))]), w2)))"

definition getCourseById :: "('c, 'st) DB \<Rightarrow> 'c request \<Rightarrow> 'st
    \<Rightarrow> 'c response \<times> ('c, 'st) world" where
  "getCourseById db req st =
     (case await (FindByPk (params_id req) (Some [Student, Teacher]))
             (Course_findByPk db (params_id req) (Some [Student, Teacher])) (fresh st) of
        (Inl err, w1) \<Rightarrow> (res_status_json 500 (Obj [(''error'', Str (message err))]), w1)
      | (Inr None, w1) \<Rightarrow> (res_status_json 404 (Obj [(''message'', Str ''Not found'')]), w1)
      | (Inr (Some course), w1) \<Rightarrow> (res_json (Inst course), w1))"

definition updateCourse :: "('c, 'st) DB \<Rightarrow> 'c request \<Rightarrow> 'st
    \<Rightarrow> 'c response \<times> ('c, 'st) world" where
  "updateCourse db req st =
     (case await (FindByPk (params_id req) None) (Course_findByPk db (params_id req) None)
             (fresh st) of
        (Inl err, w1) \<Rightarrow> (res_status_json 500 (Obj [(''error'', Str (message err))]), w1)
      | (Inr None, w1) \<Rightarrow> (res_status_json 404 (Obj [(''message'', Str ''Not found'')]), w1)
      | (Inr (Some course), w1) \<Rightarrow>
          (case await (Update course (body req)) (course_update db course (body req)) w1 of
             (Inl err, w2) \<Rightarrow>
               (res_status_json 500 (Obj [(''error'', Str (message err))]), w2)
           | (Inr course', w2) \<Rightarrow> (res_json (Inst course'), w2)))"

definition deleteCourse :: "('c, 'st) DB \<Rightarrow> 'c request \<Rightarrow> 'st
    \<Rightarrow> 'c response \<times> ('c, 'st) world" where
  "deleteCourse db req st =
     (case await (FindByPk (params_id req) None) (Course_findByPk db (params_id req) None)
             (fresh st) of
        (Inl err, w1) \<Rightarrow> (res_status_json 500 (Obj [(''error'', Str (message err))]), w1)
      | (Inr None, w1) \<Rightarrow> (res_status_json 404 (Obj [(''message'', Str ''Not found'')]), w1)
      | (Inr (Some course), w1) \<Rightarrow>
          (case await (Destroy course) (course_destroy db course) w1 of
             (Inl err, w2) \<Rightarrow>
               (res_status_json 500 (Obj [(''error'', Str (message err))]), w2)
           | (Inr u, w2) \<Rightarrow> (res_json (Obj [(''message'', Str ''Deleted'')]), w2)))"

text \<open>Reading a property of a JSON object, as a client of the response does.\<close>

definition field :: "string \<Rightarrow> 'c json \<Rightarrow> 'c json option" where
  "field k j = (case j of Obj kvs \<Rightarrow> map_of kvs k | _ \<Rightarrow> None)"

definition meta_field :: "string \<Rightarrow> 'c response \<Rightarrow> 'c json option" where
  "meta_field k res = (case field ''meta'' (payload res) of None \<Rightarrow> None | Some m \<Rightarrow> field k m)"

section \<open>A reference collaborator\<close>

text \<open>
  Modelled from the spec: the models module (\<^verbatim>\<open>../models/index.js\<close>) and the ORM behind it
  are not part of the controller. The store below follows the specification's data model
  of a Course (identifier, title, description, teacher reference, creation and update
  timestamps) and its description of the six operations: creation assigns an unused
  identifier and rejects an empty title or description, the listing is a page of the
  records ordered by creation time, a lookup by identifier finds the record or nothing,
  and every operation fails when the connection is lost. Associations are owned by the
  Student and Teacher models and are left out. A negative limit or offset is rejected,
  as the SQL engines behind the ORM do.
\<close>

record course =
  cid :: int
  title :: string
  description :: string
  TeacherId :: int
  createdAt :: int
  updatedAt :: int

record memstore =
  courses :: "course list"
  next_id :: int
  clock :: int
  online :: bool

definition ConnectionError :: error where
  "ConnectionError = Error ''SequelizeConnectionError'' ''connection lost''"

definition ValidationError :: error where
  "ValidationError = Error ''SequelizeValidationError'' ''notNull Violation''"

definition DatabaseError :: error where
  "DatabaseError = Error ''SequelizeDatabaseError'' ''LIMIT must not be negative''"

definition str_field :: "string \<Rightarrow> course json \<Rightarrow> string option" where
  "str_field k j = (case field k j of Some (Str s) \<Rightarrow> Some s | _ \<Rightarrow> None)"

definition num_field :: "string \<Rightarrow> course json \<Rightarrow> int option" where
  "num_field k j = (case field k j of Some (Num n) \<Rightarrow> Some n | _ \<Rightarrow> None)"

definition mem_create :: "course json \<Rightarrow> memstore \<Rightarrow> (error + course) \<times> memstore" where
  "mem_create b st =
     (if \<not> online st then (Inl ConnectionError, st)
      else case (str_field ''title'' b, str_field ''description'' b, num_field ''TeacherId'' b) of
             (Some t, Some d, Some tid) \<Rightarrow>
               if t = [] \<or> d = [] then (Inl ValidationError, st)
               else (let c = \<lparr>cid = next_id st, title = t, description = d, TeacherId = tid,
                               createdAt = clock st, updatedAt = clock st\<rparr>
                     in (Inr c, st\<lparr>courses := courses st @ [c], next_id := next_id st + 1,
                                   clock := clock st + 1\<rparr>))
           | _ \<Rightarrow> (Inl ValidationError, st))"

definition mem_count :: "memstore \<Rightarrow> (error + int) \<times> memstore" where
  "mem_count st =
     (if \<not> online st then (Inl ConnectionError, st)
      else (Inr (int (length (courses st))), st))"

definition ordered :: "(string \<times> string) list \<Rightarrow> course list \<Rightarrow> course list" where
  "ordered ord cs =
     (if ord = [(''createdAt'', ''DESC'')] then sort_key (\<lambda>c. - createdAt c) cs
      else sort_key createdAt cs)"

definition mem_findAll :: "findOptions \<Rightarrow> memstore \<Rightarrow> (error + course list) \<times> memstore" where
  "mem_findAll opts st =
     (if \<not> online st then (Inl ConnectionError, st)
      else if opt_limit opts < 0 \<or> opt_offset opts < 0 then (Inl DatabaseError, st)
      else (Inr (take (nat (opt_limit opts))
                   (drop (nat (opt_offset opts)) (ordered (opt_order opts) (courses st)))), st))"

definition mem_findByPk :: "string \<Rightarrow> model list option \<Rightarrow> memstore
    \<Rightarrow> (error + course option) \<times> memstore" where
  "mem_findByPk pk incl st =
     (if \<not> online st then (Inl ConnectionError, st)
      else (Inr (find (\<lambda>c. parseInt (Some pk) = Some (cid c)) (courses st)), st))"

definition mem_update :: "course \<Rightarrow> course json \<Rightarrow> memstore \<Rightarrow> (error + course) \<times> memstore" where
  "mem_update c b st =
     (if \<not> online st then (Inl ConnectionError, st)
      else if str_field ''title'' b = Some [] \<or> str_field ''description'' b = Some []
      then (Inl ValidationError, st)
      else (let c' = c\<lparr>title := (case str_field ''title'' b of None \<Rightarrow> title c | Some t \<Rightarrow> t),
                        description :=
                          (case str_field ''description'' b of None \<Rightarrow> description c | Some d \<Rightarrow> d),
                        TeacherId :=
                          (case num_field ''TeacherId'' b of None \<Rightarrow> TeacherId c | Some n \<Rightarrow> n),
                        updatedAt := clock st\<rparr>
            in (Inr c', st\<lparr>courses := map (\<lambda>r. if cid r = cid c then c' else r) (courses st),
                           clock := clock st + 1\<rparr>)))"

definition mem_destroy :: "course \<Rightarrow> memstore \<Rightarrow> (error + unit) \<times> memstore" where
  "mem_destroy c st =
     (if \<not> online st then (Inl ConnectionError, st)
      else (Inr (), st\<lparr>courses := filter (\<lambda>r. cid r \<noteq> cid c) (courses st)\<rparr>))"

definition memDB :: "(course, memstore) DB" where
  "memDB = \<lparr>Course_create = mem_create, Course_count = mem_count,
            Course_findAll = mem_findAll, Course_findByPk = mem_findByPk,
            course_update = mem_update, course_destroy = mem_destroy\<rparr>"

text \<open>
  Modelled from the spec: the part of the collaborator's contract the page size rests on.
  A listing that succeeds with a limit that is not negative returns at most that many
  records.
\<close>

definition respects_limit :: "('c, 'st) DB \<Rightarrow> bool" where
  "respects_limit db =
     (\<forall>opts st rows st'. Course_findAll db opts st = (Inr rows, st') \<longrightarrow>
        0 \<le> opt_limit opts \<longrightarrow> int (length rows) \<le> opt_limit opts)"

text \<open>Stores and requests used in the examples.\<close>

definition algebra :: course where
  "algebra = \<lparr>cid = 1, title = ''Algebra'', description = ''Intro'', TeacherId = 3,
              createdAt = 100, updatedAt = 100\<rparr>"

definition biology :: course where
  "biology = \<lparr>cid = 2, title = ''Biology'', description = ''Cells'', TeacherId = 4,
              createdAt = 200, updatedAt = 200\<rparr>"

definition chemistry :: course where
  "chemistry = \<lparr>cid = 3, title = ''Chemistry'', description = ''Atoms'', TeacherId = 4,
                createdAt = 300, updatedAt = 300\<rparr>"

definition school :: memstore where
  "school = \<lparr>courses = [algebra, biology, chemistry], next_id = 4, clock = 400, online = True\<rparr>"

definition offline_school :: memstore where
  "offline_school = school\<lparr>online := False\<rparr>"

definition request_of :: "string \<Rightarrow> (string \<times> string) list \<Rightarrow> course request" where
  "request_of pk qs = \<lparr>body = Obj [], query = map_of qs, params_id = pk\<rparr>"


definition plain :: "course request" where
  "plain = request_of [] []"

definition second_page :: "course request" where
  "second_page = request_of [] [(''limit'', ''2''), (''page'', ''2'')]"

definition newest_first :: "course request" where
  "newest_first =
     request_of [] [(''sort'', ''desc''), (''populate'', '' Students , TEACHERS,bogus'')]"

definition shouting :: "course request" where
  "shouting = request_of [] [(''sort'', ''DESC''), (''populate'', ''bogus'')]"

definition wordy :: "course request" where
  "wordy = request_of [] [(''limit'', ''ten'')]"

definition zero_paging :: "course request" where
  "zero_paging = request_of [] [(''limit'', ''0''), (''page'', ''0'')]"



section \<open>Properties of the handlers\<close>

lemma await_eq:
  "await c f w =
     (fst (f (store w)),
      w\<lparr>store := snd (f (store w)), trace := trace w @ [(c, raised (fst (f (store w))))]\<rparr>)"
  by (simp add: await_def split: prod.splits)

lemma raised_simps [simp]: "raised (Inl e) = Some e" "raised (Inr x) = None"
  by (simp_all add: raised_def)

subsection \<open>What a run of the listing does\<close>

text \<open>
  The listing counts first and lists second; the only listing call it can make carries
  the options object of the request, and a response with status 200 is built from the
  two results.
\<close>

lemma getAllCourses_findAll_call:
  assumes "(FindAll opts, e) \<in> set (trace (snd (getAllCourses db req st)))"
  shows "opts = options_of req"
  using assms
  by (auto simp: getAllCourses_def await_eq fresh_def console_error_def Let_def
      split: sum.splits)


lemma getAllCourses_success:
  assumes "status (fst (getAllCourses db req st)) = 200"
  shows "\<exists>n st1 rows st2.
           Course_count db st = (Inr n, st1) \<and>
           Course_findAll db (options_of req) st1 = (Inr rows, st2) \<and>
           fst (getAllCourses db req st) =
             \<lparr>status = 200,
              payload = Obj [(''meta'', Obj [(''totalItems'', Num n),
                                            (''page'', Num (page_of req)),
                                            (''totalPages'',
                                               num_json (Math_ceil (divide_num n (limit_of req))))]),
                            (''data'', Arr (map Inst rows))]\<rparr>"
proof (cases "Course_count db st")
  case (Pair r st1)
  show ?thesis
  proof (cases r)
    case (Inl e)
    with Pair assms show ?thesis
      by (simp add: getAllCourses_def await_eq fresh_def res_status_json_def)
  next
    case (Inr n)
    show ?thesis
    proof (cases "Course_findAll db (options_of req) st1")
      case inner: (Pair r2 st2)
      show ?thesis
      proof (cases r2)
        case (Inl e)
        with Pair Inr inner assms show ?thesis
          by (simp add: getAllCourses_def await_eq fresh_def res_status_json_def)
      next
        case rows: (Inr rows)
        with Pair Inr inner show ?thesis
          by (simp add: getAllCourses_def await_eq fresh_def res_status_json_def res_json_def)
      qed
    qed
  qed
qed

lemma totalPages_ceiling:
  assumes "l \<noteq> 0"
  shows "num_json (Math_ceil (divide_num n l)) = Num \<lceil>real_of_int n / real_of_int l\<rceil>"
  using assms
  by (simp add: num_json_def Math_ceil_def divide_num_def ceiling_divide_eq_div)

lemma memDB_respects_limit: "respects_limit memDB"
  by (auto simp: respects_limit_def memDB_def mem_findAll_def split: if_splits)

lemma limit_of_nonzero: "limit_of req \<noteq> 0"
  by (simp add: limit_of_def or_default_def split: option.splits)

lemma parseInt_undefined: "parseInt None = None"
  by code_simp

lemma populateList_token:
  "tok \<noteq> [] \<Longrightarrow>
   tok \<in> set (populateList_of req) \<longleftrightarrow>
     (\<exists>raw. query req ''populate'' = Some raw \<and>
            tok \<in> set (map (\<lambda>p. toLowerCase (trim p)) (split_comma raw)))"
  by (cases "query req ''populate''")
     (auto simp: populateList_of_def trim_def toLowerCase_def)

subsection \<open>Errors of the collaborator\<close>








subsection \<open>The lookup by identifier\<close>


text \<open>
  Claim C1, as amended. When the lookup of the path identifier finds no Course record,
  each of \<^verbatim>\<open>getCourseById\<close>, \<^verbatim>\<open>updateCourse\<close> and \<^verbatim>\<open>deleteCourse\<close> responds with status
  404 and the JSON body \<^verbatim>\<open>{message: 'Not found'}\<close>, the word \<^verbatim>\<open>found\<close> in lower case.
\<close>

theorem notFound_response:
  "(fst (Course_findByPk db (params_id req) (Some [Student, Teacher]) st) = Inr None \<longrightarrow>
      fst (getCourseById db req st) =
        \<lparr>status = 404, payload = Obj [(''message'', Str ''Not found'')]\<rparr>) \<and>
   (fst (Course_findByPk db (params_id req) None st) = Inr None \<longrightarrow>
      fst (updateCourse db req st) =
        \<lparr>status = 404, payload = Obj [(''message'', Str ''Not found'')]\<rparr> \<and>
      fst (deleteCourse db req st) =
        \<lparr>status = 404, payload = Obj [(''message'', Str ''Not found'')]\<rparr>)"
  by (simp add: getCourseById_def updateCourse_def deleteCourse_def await_eq fresh_def
      res_status_json_def)

text \<open>No course of the school has the identifier 7.\<close>

theorem notFound_response_witness:
  "fst (Course_findByPk memDB (params_id (request_of ''7'' [])) (Some [Student, Teacher]) school)
     = Inr None \<and>
   fst (Course_findByPk memDB (params_id (request_of ''7'' [])) None school) = Inr None \<and>
   fst (getCourseById memDB (request_of ''7'' []) school) =
     \<lparr>status = 404, payload = Obj [(''message'', Str ''Not found'')]\<rparr> \<and>
   fst (updateCourse memDB (request_of ''7'' []) school) =
     \<lparr>status = 404, payload = Obj [(''message'', Str ''Not found'')]\<rparr> \<and>
   fst (deleteCourse memDB (request_of ''7'' []) school) =
     \<lparr>status = 404, payload = Obj [(''message'', Str ''Not found'')]\<rparr>"
proof -
  have a: "fst (Course_findByPk memDB (params_id (request_of ''7'' []))
             (Some [Student, Teacher]) school) = Inr None"
    by code_simp
  have b: "fst (Course_findByPk memDB (params_id (request_of ''7'' [])) None school) = Inr None"
    by code_simp
  from notFound_response [of memDB "request_of ''7'' []" school] a b show ?thesis
    by simp
qed

text \<open>
  Claim C1 as stated asks for the body \<^verbatim>\<open>{message: 'Not Found'}\<close>. For the identifier 7
  the lookup finds nothing and the status is 404, but the body is not that document.
\<close>

theorem notFound_capital_counterexample:
  "fst (Course_findByPk memDB (params_id (request_of ''7'' [])) (Some [Student, Teacher]) school)
     = Inr None \<and>
   status (fst (getCourseById memDB (request_of ''7'' []) school)) = 404 \<and>
   payload (fst (getCourseById memDB (request_of ''7'' []) school))
     \<noteq> Obj [(''message'', Str ''Not Found'')]"
  by code_simp

text \<open>
  Claim C8. When the lookup of \<^verbatim>\<open>updateCourse\<close> or \<^verbatim>\<open>deleteCourse\<close> finds no Course
  record, the lookup is the only call the handler makes: no update and no destroy is
  issued, nothing is written to the console, and the store is the one the lookup left.
  With a lookup that only reads (\<open>st1 = st\<close>) the store is unchanged.
\<close>

theorem notFound_makes_no_mutation:
  assumes "Course_findByPk db (params_id req) None st = (Inr None, st1)"
  shows "snd (updateCourse db req st) =
           \<lparr>store = st1, trace = [(FindByPk (params_id req) None, None)], console = []\<rparr> \<and>
         snd (deleteCourse db req st) =
           \<lparr>store = st1, trace = [(FindByPk (params_id req) None, None)], console = []\<rparr>"
  using assms by (simp add: updateCourse_def deleteCourse_def await_eq fresh_def)

text \<open>On the reference store the lookup reads only, so the school is unchanged.\<close>

theorem notFound_makes_no_mutation_witness:
  "Course_findByPk memDB (params_id (request_of ''7'' [])) None school = (Inr None, school) \<and>
   snd (updateCourse memDB (request_of ''7'' []) school) =
     \<lparr>store = school, trace = [(FindByPk ''7'' None, None)], console = []\<rparr> \<and>
   snd (deleteCourse memDB (request_of ''7'' []) school) =
     \<lparr>store = school, trace = [(FindByPk ''7'' None, None)], console = []\<rparr>"
proof -
  have a: "Course_findByPk memDB (params_id (request_of ''7'' [])) None school
             = (Inr None, school)"
    by code_simp
  from notFound_makes_no_mutation [OF a] a show ?thesis
    by (simp add: request_of_def)
qed

subsection \<open>The listing\<close>

text \<open>
  Claim C2. For a collaborator whose listing respects the limit, every response of
  \<^verbatim>\<open>getAllCourses\<close> with status 200 and a positive limit has
  \<open>totalPages = \<lceil>totalItems / limit\<rceil>\<close> in its meta object and at most \<open>limit\<close> records
  in its data array.
\<close>

theorem getAllCourses_page_meta:
  assumes "respects_limit db"
      and "status (fst (getAllCourses db req st)) = 200"
      and "0 < limit_of req"
  shows "\<exists>n rows.
           payload (fst (getAllCourses db req st)) =
             Obj [(''meta'', Obj [(''totalItems'', Num n),
                                  (''page'', Num (page_of req)),
                                  (''totalPages'',
                                     Num \<lceil>real_of_int n / real_of_int (limit_of req)\<rceil>)]),
                  (''data'', Arr (map Inst rows))] \<and>
           int (length rows) \<le> limit_of req"
proof -
  from getAllCourses_success [OF assms(2)] obtain n st1 rows st2 where
    fa: "Course_findAll db (options_of req) st1 = (Inr rows, st2)" and
    res: "fst (getAllCourses db req st) =
             \<lparr>status = 200,
              payload = Obj [(''meta'', Obj [(''totalItems'', Num n),
                                            (''page'', Num (page_of req)),
                                            (''totalPages'',
                                               num_json (Math_ceil (divide_num n (limit_of req))))]),
                            (''data'', Arr (map Inst rows))]\<rparr>"
    by blast
  have "opt_limit (options_of req) = limit_of req"
    by (simp add: options_of_def)
  with assms(1,3) fa have len: "int (length rows) \<le> limit_of req"
    unfolding respects_limit_def by fastforce
  from assms(3) have "limit_of req \<noteq> 0" by simp
  with res len show ?thesis
    by (intro exI [of _ n] exI [of _ rows]) (simp add: totalPages_ceiling)
qed

text \<open>The second page of two of the school's three courses holds one course of two pages.\<close>

theorem getAllCourses_page_meta_witness:
  "respects_limit memDB \<and>
   status (fst (getAllCourses memDB second_page school)) = 200 \<and>
   0 < limit_of second_page \<and>
   (\<exists>n rows.
      payload (fst (getAllCourses memDB second_page school)) =
        Obj [(''meta'', Obj [(''totalItems'', Num n), (''page'', Num 2),
                             (''totalPages'', Num \<lceil>real_of_int n / 2\<rceil>)]),
             (''data'', Arr (map Inst rows))] \<and>
      int (length rows) \<le> 2) \<and>
   payload (fst (getAllCourses memDB second_page school)) =
     Obj [(''meta'', Obj [(''totalItems'', Num 3), (''page'', Num 2), (''totalPages'', Num 2)]),
          (''data'', Arr [Inst chemistry])]"
proof -
  have s: "status (fst (getAllCourses memDB second_page school)) = 200"
    by code_simp
  have l: "limit_of second_page = 2"
    by code_simp
  have p: "page_of second_page = 2"
    by code_simp
  have pos: "0 < limit_of second_page"
    by (simp add: l)
  have t: "payload (fst (getAllCourses memDB second_page school)) =
     Obj [(''meta'', Obj [(''totalItems'', Num 3), (''page'', Num 2), (''totalPages'', Num 2)]),
          (''data'', Arr [Inst chemistry])]"
    by code_simp
  from getAllCourses_page_meta [OF memDB_respects_limit s pos]
  have "\<exists>n rows.
      payload (fst (getAllCourses memDB second_page school)) =
        Obj [(''meta'', Obj [(''totalItems'', Num n), (''page'', Num 2),
                             (''totalPages'', Num \<lceil>real_of_int n / 2\<rceil>)]),
             (''data'', Arr (map Inst rows))] \<and>
      int (length rows) \<le> 2"
    by (simp add: l p)
  with memDB_respects_limit s pos t show ?thesis
    by simp
qed

text \<open>
  Claim C9. The \<open>totalItems\<close> of a successful listing is the number the collaborator's
  count returned for the store. The count takes no argument from the request, so two
  successful listings of the same store report the same \<open>totalItems\<close> whatever their
  page, limit, sort and populate parameters are.
\<close>

theorem totalItems_is_count:
  assumes "status (fst (getAllCourses db req st)) = 200"
      and "status (fst (getAllCourses db req' st)) = 200"
  shows "\<exists>n. fst (Course_count db st) = Inr n \<and>
             meta_field ''totalItems'' (fst (getAllCourses db req st)) = Some (Num n) \<and>
             meta_field ''totalItems'' (fst (getAllCourses db req' st)) = Some (Num n)"
proof -
  from getAllCourses_success [OF assms(1)] obtain n where
    c: "fst (Course_count db st) = Inr n" and
    a: "meta_field ''totalItems'' (fst (getAllCourses db req st)) = Some (Num n)"
    by (fastforce simp: meta_field_def field_def)
  from getAllCourses_success [OF assms(2)] obtain m where
    c': "fst (Course_count db st) = Inr m" and
    b: "meta_field ''totalItems'' (fst (getAllCourses db req' st)) = Some (Num m)"
    by (fastforce simp: meta_field_def field_def)
  from c c' have "m = n" by simp
  with a b c show ?thesis by simp
qed

text \<open>Two listings of the school with different parameters both report its three courses.\<close>

theorem totalItems_is_count_witness:
  "status (fst (getAllCourses memDB second_page school)) = 200 \<and>
   status (fst (getAllCourses memDB newest_first school)) = 200 \<and>
   (\<exists>n. fst (Course_count memDB school) = Inr n \<and>
        meta_field ''totalItems'' (fst (getAllCourses memDB second_page school)) = Some (Num n) \<and>
        meta_field ''totalItems'' (fst (getAllCourses memDB newest_first school)) = Some (Num n)) \<and>
   fst (Course_count memDB school) = Inr 3"
proof -
  have a: "status (fst (getAllCourses memDB second_page school)) = 200"
    by code_simp
  have b: "status (fst (getAllCourses memDB newest_first school)) = 200"
    by code_simp
  have c: "fst (Course_count memDB school) = Inr 3"
    by code_simp
  from totalItems_is_count [OF a b] a b c show ?thesis
    by simp
qed



text \<open>
  Claim C6. The inclusion list holds the Student model exactly when the populate
  parameter, split at commas with every token trimmed and lower-cased, has the token
  \<^verbatim>\<open>students\<close>, and the Teacher model exactly when it has \<^verbatim>\<open>teachers\<close>; no other token
  has any effect, a missing parameter gives the empty list, and the listing call receives
  the list, or \<^verbatim>\<open>undefined\<close> when it is empty.
\<close>

theorem include_follows_populate:
  "(Student \<in> set (include_of req) \<longleftrightarrow>
      (\<exists>raw. query req ''populate'' = Some raw \<and>
             ''students'' \<in> set (map (\<lambda>p. toLowerCase (trim p)) (split_comma raw)))) \<and>
   (Teacher \<in> set (include_of req) \<longleftrightarrow>
      (\<exists>raw. query req ''populate'' = Some raw \<and>
             ''teachers'' \<in> set (map (\<lambda>p. toLowerCase (trim p)) (split_comma raw)))) \<and>
   (query req ''populate'' = None \<longrightarrow> include_of req = []) \<and>
   (\<forall>opts e. (FindAll opts, e) \<in> set (trace (snd (getAllCourses db req st))) \<longrightarrow>
      opt_include opts = (if include_of req = [] then None else Some (include_of req)))"
proof (intro conjI allI impI)
  have s: "''students'' \<in> set (populateList_of req) \<longleftrightarrow>
      (\<exists>raw. query req ''populate'' = Some raw \<and>
             ''students'' \<in> set (map (\<lambda>p. toLowerCase (trim p)) (split_comma raw)))"
    by (rule populateList_token) simp
  then show "Student \<in> set (include_of req) \<longleftrightarrow>
      (\<exists>raw. query req ''populate'' = Some raw \<and>
             ''students'' \<in> set (map (\<lambda>p. toLowerCase (trim p)) (split_comma raw)))"
    by (simp add: include_of_def)
  have t: "''teachers'' \<in> set (populateList_of req) \<longleftrightarrow>
      (\<exists>raw. query req ''populate'' = Some raw \<and>
             ''teachers'' \<in> set (map (\<lambda>p. toLowerCase (trim p)) (split_comma raw)))"
    by (rule populateList_token) simp
  then show "Teacher \<in> set (include_of req) \<longleftrightarrow>
      (\<exists>raw. query req ''populate'' = Some raw \<and>
             ''teachers'' \<in> set (map (\<lambda>p. toLowerCase (trim p)) (split_comma raw)))"
    by (simp add: include_of_def)
next
  assume "query req ''populate'' = None"
  then show "include_of req = []"
    by (simp add: include_of_def populateList_of_def)
next
  fix opts e
  assume "(FindAll opts, e) \<in> set (trace (snd (getAllCourses db req st)))"
  then have "opts = options_of req"
    by (rule getAllCourses_findAll_call)
  then show "opt_include opts = (if include_of req = [] then None else Some (include_of req))"
    by (simp add: options_of_def)
qed

text \<open>
  No parameter includes nothing; \<^verbatim>\<open>populate= Students , TEACHERS,bogus\<close> includes both
  models; \<^verbatim>\<open>populate=bogus\<close> includes nothing and the listing still succeeds.
\<close>

theorem include_follows_populate_witness:
  "query plain ''populate'' = None \<and> include_of plain = [] \<and>
   include_of newest_first = [Student, Teacher] \<and>
   include_of shouting = [] \<and>
   (FindAll \<lparr>opt_include = Some [Student, Teacher], opt_limit = 10, opt_offset = 0,
             opt_order = [(''createdAt'', ''DESC'')]\<rparr>, None)
     \<in> set (trace (snd (getAllCourses memDB newest_first school))) \<and>
   status (fst (getAllCourses memDB shouting school)) = 200"
proof -
  have a: "query plain ''populate'' = None"
    by (simp add: plain_def request_of_def)
  have b: "include_of newest_first = [Student, Teacher]" "include_of shouting = []"
    by code_simp+
  have c: "(FindAll \<lparr>opt_include = Some [Student, Teacher], opt_limit = 10, opt_offset = 0,
             opt_order = [(''createdAt'', ''DESC'')]\<rparr>, None)
     \<in> set (trace (snd (getAllCourses memDB newest_first school)))"
    by code_simp
  have d: "status (fst (getAllCourses memDB shouting school)) = 200"
    by code_simp
  from include_follows_populate [of plain memDB school]
    include_follows_populate [of newest_first memDB school] a b c d
  show ?thesis by simp
qed

text \<open>
  Claim C10. The limit that divides the total is never zero: a missing limit, one that
  does not parse and one that parses to zero are all replaced by 10, so the quotient is
  finite and the \<open>totalPages\<close> of a successful listing is a number.
\<close>

theorem limit_never_zero:
  "limit_of req \<noteq> 0 \<and>
   divide_num n (limit_of req) \<noteq> None \<and>
   (query req ''limit'' = None \<longrightarrow> limit_of req = 10) \<and>
   (parseInt (query req ''limit'') = None \<longrightarrow> limit_of req = 10) \<and>
   (parseInt (query req ''limit'') = Some 0 \<longrightarrow> limit_of req = 10) \<and>
   (status (fst (getAllCourses db req st)) = 200 \<longrightarrow>
      (\<exists>k. meta_field ''totalPages'' (fst (getAllCourses db req st)) = Some (Num k)))"
proof (intro conjI impI)
  show "limit_of req \<noteq> 0"
    by (rule limit_of_nonzero)
  then show "divide_num n (limit_of req) \<noteq> None"
    by (simp add: divide_num_def)
  show "limit_of req = 10" if "query req ''limit'' = None"
    using that by (simp add: limit_of_def or_default_def parseInt_undefined)
  show "limit_of req = 10" if "parseInt (query req ''limit'') = None"
    using that by (simp add: limit_of_def or_default_def)
  show "limit_of req = 10" if "parseInt (query req ''limit'') = Some 0"
    using that by (simp add: limit_of_def or_default_def)
  show "\<exists>k. meta_field ''totalPages'' (fst (getAllCourses db req st)) = Some (Num k)"
    if "status (fst (getAllCourses db req st)) = 200"
  proof -
    from getAllCourses_success [OF that] obtain n' rows where
      "fst (getAllCourses db req st) =
             \<lparr>status = 200,
              payload = Obj [(''meta'', Obj [(''totalItems'', Num n'),
                                            (''page'', Num (page_of req)),
                                            (''totalPages'',
                                               num_json (Math_ceil (divide_num n' (limit_of req))))]),
                            (''data'', Arr (map Inst rows))]\<rparr>"
      by blast
    then show ?thesis
      by (simp add: meta_field_def field_def num_json_def Math_ceil_def divide_num_def
          limit_of_nonzero)
  qed
qed

text \<open>The three kinds of limit that fall back to 10, and a listing with \<^verbatim>\<open>limit=0\<close>.\<close>

theorem limit_never_zero_witness:
  "query plain ''limit'' = None \<and> limit_of plain = 10 \<and>
   parseInt (query wordy ''limit'') = None \<and> limit_of wordy = 10 \<and>
   parseInt (query zero_paging ''limit'') = Some 0 \<and> limit_of zero_paging = 10 \<and>
   status (fst (getAllCourses memDB zero_paging school)) = 200 \<and>
   meta_field ''totalPages'' (fst (getAllCourses memDB zero_paging school)) = Some (Num 1)"
proof -
  have a: "query plain ''limit'' = None"
    by (simp add: plain_def request_of_def)
  have b: "parseInt (query wordy ''limit'') = None"
    by code_simp
  have c: "parseInt (query zero_paging ''limit'') = Some 0"
    by code_simp
  have d: "status (fst (getAllCourses memDB zero_paging school)) = 200"
    by code_simp
  have e: "meta_field ''totalPages'' (fst (getAllCourses memDB zero_paging school)) = Some (Num 1)"
    by code_simp
  from limit_never_zero [of plain 3 memDB school] limit_never_zero [of wordy 3 memDB school]
    limit_never_zero [of zero_paging 3 memDB school] a b c d e
  show ?thesis by simp
qed




end
